theory Spec2Isabelle
  imports Complex_Main "HOL-Library.Monad_Syntax"
begin

section \<open>Data model\<close>

text \<open>
  The library of \<^verbatim>\<open>src/lib/Matrix.cc\<close> wraps a \<^verbatim>\<open>gsl_matrix\<close>: two sizes and a
  contiguous row-major block of doubles. Every matrix the class allocates itself comes
  from \<^verbatim>\<open>gsl_matrix_alloc\<close>, whose row stride equals \<^verbatim>\<open>size2\<close>, so element
  \<open>(row, col)\<close> lives at offset \<open>row * size2 + col\<close> of the block.

  Doubles are idealised as real numbers: the development is about which cells are read,
  combined and written, not about rounding. Sizes are natural numbers (the conversions
  between \<^verbatim>\<open>size_t\<close> and \<^verbatim>\<open>int\<close> at the library calls are taken to be exact).
\<close>

type_synonym double = real

text \<open>A \<^verbatim>\<open>gsl_vector\<close> of stride 1: its size is the length of the list.\<close>

type_synonym Vector = "double list"

record Matrix =
  size1 :: nat
  size2 :: nat
  data :: "double list"

text \<open>
  What can stop a call: the exception of the file constructor, the checks of the GSL and
  CBLAS routines (whose default handlers terminate the process), and an access outside a
  buffer (undefined behaviour in C).
\<close>

datatype error =
    FileReadError
  | ScanFailed
  | IndexOutOfRange
  | BadLength
  | IllegalParameter
  | OutOfBounds
  | LinalgError

definition Height :: "Matrix \<Rightarrow> nat" where
  "Height this = size1 this"

definition Width :: "Matrix \<Rightarrow> nat" where
  "Width this = size2 this"

text \<open>The invariant of section 3 of the specification: positive sizes, a block of
  \<open>h * w\<close> cells.\<close>

definition valid :: "Matrix \<Rightarrow> bool" where
  "valid this \<longleftrightarrow> 0 < size1 this \<and> 0 < size2 this \<and> length (data this) = size1 this * size2 this"

text \<open>\<^verbatim>\<open>gsl_matrix_alloc\<close> returns uninitialised storage; \<open>u\<close> gives the value that
  happens to sit in each cell of the fresh block.\<close>

definition gsl_matrix_alloc :: "nat \<Rightarrow> nat \<Rightarrow> (nat \<Rightarrow> double) \<Rightarrow> Matrix" where
  "gsl_matrix_alloc n1 n2 u = \<lparr>size1 = n1, size2 = n2, data = map u [0..<n1 * n2]\<rparr>"

text \<open>\<^verbatim>\<open>gsl_matrix_get\<close> and \<^verbatim>\<open>gsl_matrix_set\<close>, range checked.\<close>

definition Get :: "Matrix \<Rightarrow> nat \<Rightarrow> nat \<Rightarrow> error + double" where
  "Get this row col =
     (if row < size1 this \<and> col < size2 this
      then Inr (data this ! (row * size2 this + col))
      else Inl IndexOutOfRange)"

definition Set_cell :: "Matrix \<Rightarrow> nat \<Rightarrow> nat \<Rightarrow> double \<Rightarrow> error + Matrix" where
  "Set_cell this row col val =
     (if row < size1 this \<and> col < size2 this
      then Inr (this\<lparr>data := (data this)[row * size2 this + col := val]\<rparr>)
      else Inl IndexOutOfRange)"

text \<open>
  \<^verbatim>\<open>Matrix::Matrix(double *data, size_t height, size_t width)\<close>: a fresh
  \<open>height \<times> width\<close> matrix whose cell \<open>(row, col)\<close> is \<open>data[row * width + col]\<close>.
  Reading past the end of the caller's buffer is reported as \<open>OutOfBounds\<close>.
\<close>

definition Matrix_of_buffer :: "double list \<Rightarrow> nat \<Rightarrow> nat \<Rightarrow> error + Matrix" where
  "Matrix_of_buffer buf height width =
     (if length buf < height * width then Inl OutOfBounds
      else Inr \<lparr>size1 = height, size2 = width,
                data = concat (map (\<lambda>row. map (\<lambda>col. buf ! (row * width + col)) [0..<width])
                                   [0..<height])\<rparr>)"

text \<open>\<^verbatim>\<open>Matrix::Clone\<close>: \<^verbatim>\<open>new Matrix(this->m->data, this->Width(), this->Height())\<close>.\<close>

definition Clone :: "Matrix \<Rightarrow> error + Matrix" where
  "Clone this = Matrix_of_buffer (data this) (Width this) (Height this)"

section \<open>Rows\<close>

text \<open>
  \<^verbatim>\<open>Matrix::Row\<close> allocates a vector of \<^verbatim>\<open>Width()\<close> cells and fills it with
  \<^verbatim>\<open>gsl_matrix_get_row\<close>, which refuses a row index outside the matrix.
  (\<^verbatim>\<open>Vector(gsl_vector*)\<close> is not part of the sources at hand. Modelled from the spec:
  the vector object owns the \<^verbatim>\<open>gsl_vector\<close> it is given.)
\<close>

definition Row :: "Matrix \<Rightarrow> nat \<Rightarrow> error + Vector" where
  "Row this row =
     (if size1 this \<le> row then Inl IndexOutOfRange
      else Inr (map (\<lambda>j. data this ! (row * size2 this + j)) [0..<Width this]))"

text \<open>
  \<^verbatim>\<open>Matrix::SetRow\<close> is \<^verbatim>\<open>gsl_matrix_set_row\<close>: index and length are checked, then
  cell \<open>j\<close> of the row receives cell \<open>j\<close> of the vector, for \<open>j\<close> from 0 to \<open>size2 - 1\<close>.
\<close>

definition SetRow :: "Matrix \<Rightarrow> nat \<Rightarrow> Vector \<Rightarrow> error + Matrix" where
  "SetRow this row vec =
     (if size1 this \<le> row then Inl IndexOutOfRange
      else if length vec \<noteq> size2 this then Inl BadLength
      else Inr (this\<lparr>data :=
                  fold (\<lambda>j d. d[row * size2 this + j := vec ! j]) [0..<size2 this] (data this)\<rparr>))"

section \<open>Inversion\<close>

text \<open>A \<^verbatim>\<open>for\<close> loop over an index list whose body may stop the program.\<close>

fun for_each :: "('i \<Rightarrow> 's \<Rightarrow> error + 's) \<Rightarrow> 'i list \<Rightarrow> 's \<Rightarrow> error + 's" where
  "for_each body [] s = Inr s"
| "for_each body (i # is) s =
     (case body i s of Inl e \<Rightarrow> Inl e | Inr s' \<Rightarrow> for_each body is s')"

text \<open>
  \<^verbatim>\<open>Matrix::CloneGSLMatrix\<close>. The local \<^verbatim>\<open>m\<close> is freshly allocated; the loop calls
  \<^verbatim>\<open>this->Set(row, col, *(this->m->data + row * width + col))\<close>, that is, it writes
  into the receiver; the local \<^verbatim>\<open>m\<close> is returned as allocated. The result is the
  receiver after the loop together with the returned matrix.
\<close>

definition CloneGSLMatrix :: "(nat \<Rightarrow> double) \<Rightarrow> Matrix \<Rightarrow> error + Matrix \<times> Matrix" where
  "CloneGSLMatrix u this =
     (let height = Height this;
          width = Width this;
          m = gsl_matrix_alloc height width u
      in case for_each (\<lambda>row. for_each (\<lambda>col t.
                  Set_cell t row col (data t ! (row * width + col))) [0..<width])
                [0..<height] this of
           Inl e \<Rightarrow> Inl e
         | Inr this' \<Rightarrow> Inr (this', m))"

text \<open>
  \<^verbatim>\<open>Matrix::Invert\<close>. The two GSL calls \<^verbatim>\<open>gsl_linalg_LU_decomp\<close> and
  \<^verbatim>\<open>gsl_linalg_LU_invert\<close> are a parameter \<open>lu\<close>: given the working copy it either
  fails (\<open>None\<close>: the GSL error handler stops the program) or yields the entry
  \<open>(i, j)\<close> it writes into every cell of \<^verbatim>\<open>inverse\<close>. The result is the receiver
  after the call together with the new matrix.
\<close>

definition Invert ::
  "(Matrix \<Rightarrow> (nat \<Rightarrow> nat \<Rightarrow> double) option) \<Rightarrow> (nat \<Rightarrow> double) \<Rightarrow> (nat \<Rightarrow> double) \<Rightarrow> Matrix
     \<Rightarrow> error + Matrix \<times> Matrix" where
  "Invert lu u u' this =
     (let n = Width this in
      case CloneGSLMatrix u this of
        Inl e \<Rightarrow> Inl e
      | Inr (this', copy) \<Rightarrow>
          (let inverse = gsl_matrix_alloc n n u' in
           case lu copy of
             None \<Rightarrow> Inl LinalgError
           | Some entry \<Rightarrow>
               (let inverse = inverse\<lparr>data := concat (map (\<lambda>i. map (\<lambda>j. entry i j) [0..<n]) [0..<n])\<rparr>
                in case Matrix_of_buffer (data inverse) n n of
                     Inl e \<Rightarrow> Inl e
                   | Inr r \<Rightarrow> Inr (this', r))))"


section \<open>Multiplication\<close>

text \<open>
  Both overloads call \<^verbatim>\<open>cblas_dgemm\<close> with \<^verbatim>\<open>CblasRowMajor\<close>, \<^verbatim>\<open>CblasNoTrans\<close> for
  \<open>A\<close> and \<^verbatim>\<open>CblasTrans\<close> for \<open>B\<close>; the routine is modelled for these flags, after its
  documented contract: \<open>C := alpha * A * B\<^sup>T + beta * C\<close>, where \<open>A\<close> is \<open>M \<times> K\<close> with
  leading dimension \<open>lda\<close>, \<open>B\<close> is \<open>N \<times> K\<close> with leading dimension \<open>ldb\<close> and \<open>C\<close> is
  \<open>M \<times> N\<close> with leading dimension \<open>ldc\<close>. A leading dimension smaller than the row
  length is an illegal parameter (\<^verbatim>\<open>xerbla\<close>); an operand that does not fit its buffer
  is an access out of bounds. With \<open>beta = 0\<close> the old content of \<open>C\<close> is not read.
\<close>

definition block_fits :: "nat \<Rightarrow> nat \<Rightarrow> nat \<Rightarrow> nat \<Rightarrow> bool" where
  "block_fits rows cols ld len \<longleftrightarrow> rows = 0 \<or> cols = 0 \<or> (rows - 1) * ld + cols \<le> len"

definition cblas_dgemm_RowMajor_NoTrans_Trans ::
  "nat \<Rightarrow> nat \<Rightarrow> nat \<Rightarrow> double \<Rightarrow> double list \<Rightarrow> nat \<Rightarrow> double list \<Rightarrow> nat \<Rightarrow> double
     \<Rightarrow> double list \<Rightarrow> nat \<Rightarrow> error + double list" where
  "cblas_dgemm_RowMajor_NoTrans_Trans M N K alpha A lda B ldb beta C ldc =
     (if lda < max 1 K \<or> ldb < max 1 K \<or> ldc < max 1 N then Inl IllegalParameter
      else if block_fits M K lda (length A) \<and> block_fits N K ldb (length B)
              \<and> block_fits M N ldc (length C)
      then Inr (map (\<lambda>p.
             let i = p div ldc; j = p mod ldc in
             if i < M \<and> j < N
             then alpha * (\<Sum>k\<leftarrow>[0..<K]. A ! (i * lda + k) * B ! (j * ldb + k))
                    + (if beta = 0 then 0 else beta * C ! p)
             else C ! p) [0..<length C])
      else Inl OutOfBounds)"

text \<open>\<^verbatim>\<open>Matrix::Multiply(Matrix *other)\<close>.\<close>

definition Multiply :: "(nat \<Rightarrow> double) \<Rightarrow> Matrix \<Rightarrow> Matrix \<Rightarrow> error + Matrix" where
  "Multiply u this other =
     (let result = gsl_matrix_alloc (Height this) (Height other) u in
      case cblas_dgemm_RowMajor_NoTrans_Trans
             (Height this) (Height other) (Width this)
             1 (data this) (Width this)
             (data other) (Width other)
             0 (data result) (size2 result) of
        Inl e \<Rightarrow> Inl e
      | Inr C \<Rightarrow> Matrix_of_buffer C (Height this) (Height other))"

text \<open>\<^verbatim>\<open>gsl_vector_calloc\<close>: a zeroed vector.\<close>

definition gsl_vector_calloc :: "nat \<Rightarrow> Vector" where
  "gsl_vector_calloc n = replicate n 0"

text \<open>
  \<^verbatim>\<open>Vector(double*, size_t)\<close> is not part of the sources at hand.
  Modelled from the spec: a vector created from a raw buffer of known length is an
  independent copy of that many cells.
\<close>

definition Vector_of_buffer :: "double list \<Rightarrow> nat \<Rightarrow> error + Vector" where
  "Vector_of_buffer buf n = (if length buf < n then Inl OutOfBounds else Inr (take n buf))"

text \<open>\<^verbatim>\<open>Matrix::Multiply(Vector *vec)\<close>.\<close>

definition Multiply_Vector :: "Matrix \<Rightarrow> Vector \<Rightarrow> error + Vector" where
  "Multiply_Vector this vec =
     (let result = gsl_vector_calloc (length vec) in
      case cblas_dgemm_RowMajor_NoTrans_Trans
             (Height this) (length vec) (Width this)
             1 (data this) (size2 this)
             vec (length vec)
             0 result 1 of
        Inl e \<Rightarrow> Inl e
      | Inr C \<Rightarrow> Vector_of_buffer C (length result))"

text \<open>The dot product of two vectors, as the specification words the entries of a product.\<close>

definition dot :: "double list \<Rightarrow> double list \<Rightarrow> double" where
  "dot xs ys = (\<Sum>(x, y)\<leftarrow>zip xs ys. x * y)"

section \<open>Sphering\<close>










section \<open>The constructor from a file path\<close>

text \<open>
  A stream opened for reading is the list of the bytes not yet read; \<^verbatim>\<open>fseek\<close> to the
  start gives the whole file again. \<^verbatim>\<open>fgetc\<close> answers the next byte, or \<^verbatim>\<open>EOF\<close> at
  the end of the file, as often as it is asked. Both loops store the answer in a
  \<^verbatim>\<open>char\<close>; with a signed \<^verbatim>\<open>char\<close> the stored \<^verbatim>\<open>EOF\<close> is the byte \<open>0xFF\<close>, which
  then compares equal to \<^verbatim>\<open>EOF\<close>. The counters are natural numbers.
\<close>

definition newline :: char where
  "newline = CHR 0x0A"

text \<open>\<^verbatim>\<open>isspace\<close> in the C locale: space, tab, newline, vertical tab, form feed, carriage
  return.\<close>

definition isspace :: "char \<Rightarrow> bool" where
  "isspace c \<longleftrightarrow> c \<in> {CHR 0x20, CHR 0x09, CHR 0x0A, CHR 0x0B, CHR 0x0C, CHR 0x0D}"

definition EOF_char :: char where
  "EOF_char = CHR 0xFF"

fun fgetc :: "string \<Rightarrow> char \<times> string" where
  "fgetc [] = (EOF_char, [])"
| "fgetc (c # f) = (c, f)"

text \<open>\<^verbatim>\<open>Matrix::NumberOfRows\<close>: the loop runs until \<^verbatim>\<open>EOF\<close>.\<close>

function NumberOfRows_loop :: "string \<Rightarrow> char \<Rightarrow> nat \<Rightarrow> nat" where
  "NumberOfRows_loop f lastChar count =
     (case fgetc f of (currentChar, f') \<Rightarrow>
        if currentChar \<noteq> EOF_char
        then NumberOfRows_loop f' currentChar
               (if lastChar = newline \<and> currentChar \<noteq> newline then count + 1 else count)
        else count)"
  by pat_completeness auto
termination
proof (relation "measure (\<lambda>(f, lastChar, count). length f)")
  fix f :: string and lastChar :: char and count :: nat and x y
  assume "(x, y) = fgetc f" and "x \<noteq> EOF_char"
  then show "((y, x, if lastChar = newline \<and> x \<noteq> newline then count + 1 else count),
              f, lastChar, count) \<in> measure (\<lambda>(f, lastChar, count). length f)"
    by (cases f) auto
qed simp

declare NumberOfRows_loop.simps [simp del]

definition NumberOfRows :: "string \<Rightarrow> nat" where
  "NumberOfRows f = NumberOfRows_loop f newline 0"

text \<open>
  \<^verbatim>\<open>Matrix::NumberOfColumns\<close>: the loop runs until it reads a newline, and only then.
  It need not return; \<open>None\<close> is the run that never leaves the loop.
\<close>

partial_function (option) NumberOfColumns_loop :: "string \<Rightarrow> char \<Rightarrow> nat \<Rightarrow> nat option" where
  "NumberOfColumns_loop f lastChar count =
     (case fgetc f of (currentChar, f') \<Rightarrow>
        if currentChar \<noteq> newline
        then NumberOfColumns_loop f' currentChar
               (if isspace lastChar \<and> \<not> isspace currentChar then count + 1 else count)
        else Some count)"

declare NumberOfColumns_loop.simps [code]

definition NumberOfColumns :: "string \<Rightarrow> nat option" where
  "NumberOfColumns f = NumberOfColumns_loop f (CHR 0x20) 0"

text \<open>
  \<^verbatim>\<open>gsl_matrix_fscanf\<close> on a matrix whose stride equals its width reads
  \<open>size1 * size2\<close> numbers with \<^verbatim>\<open>fscanf(stream, "%lg", &tmp)\<close>, in order, and raises a
  GSL error at the first conversion that fails. One conversion is the parameter
  \<open>scan\<close>: it yields the number and the rest of the stream, or fails.
\<close>

type_synonym scanner = "string \<Rightarrow> (double \<times> string) option"

fun gsl_block_raw_fscanf :: "scanner \<Rightarrow> string \<Rightarrow> nat \<Rightarrow> double list option" where
  "gsl_block_raw_fscanf scan f 0 = Some []"
| "gsl_block_raw_fscanf scan f (Suc n) =
     (case scan f of
        None \<Rightarrow> None
      | Some (tmp, f') \<Rightarrow>
          (case gsl_block_raw_fscanf scan f' n of
             None \<Rightarrow> None
           | Some xs \<Rightarrow> Some (tmp # xs)))"

text \<open>
  \<^verbatim>\<open>Matrix::Matrix(const char *filename)\<close>. \<open>fs\<close> maps the names of the files that can be
  opened to their contents. The outer \<open>option\<close> is \<open>None\<close> when the constructor does not
  return.
\<close>

definition Matrix_of_file :: "scanner \<Rightarrow> (string \<Rightarrow> string option) \<Rightarrow> string \<Rightarrow> (error + Matrix) option" where
  "Matrix_of_file scan fs filename =
     (case fs filename of
        None \<Rightarrow> Some (Inl FileReadError)
      | Some f \<Rightarrow>
          (let rows = NumberOfRows f in
           case NumberOfColumns f of
             None \<Rightarrow> None
           | Some cols \<Rightarrow>
               (case gsl_block_raw_fscanf scan f (rows * cols) of
                  None \<Rightarrow> Some (Inl ScanFailed)
                | Some xs \<Rightarrow> Some (Inr \<lparr>size1 = rows, size2 = cols, data = xs\<rparr>))))"

text \<open>
  The conversion \<^verbatim>\<open>%lg\<close> on unsigned decimal integers, as in the example of the
  specification: white space is skipped, then the longest run of digits is read; no digit
  is a failed conversion. (The signs, fractions and exponents that \<^verbatim>\<open>%lg\<close> also reads
  are left to the parameter \<open>scan\<close>.)
\<close>

definition isdigit :: "char \<Rightarrow> bool" where
  "isdigit c \<longleftrightarrow> c \<in> set ''0123456789''"

definition digit_value :: "char \<Rightarrow> nat" where
  "digit_value c = of_char c - 48"

definition scan_decimal :: scanner where
  "scan_decimal f =
     (let f' = dropWhile isspace f; ds = takeWhile isdigit f'
      in if ds = [] then None
         else Some (real (foldl (\<lambda>a d. 10 * a + digit_value d) 0 ds), dropWhile isdigit f'))"

text \<open>
  The words of the specification: the lines of a file are its pieces between newline
  characters, a non-blank line is a line with at least one character, the tokens of a
  line are its non-empty pieces between white space.
\<close>

fun split_on :: "(char \<Rightarrow> bool) \<Rightarrow> string \<Rightarrow> string list" where
  "split_on sep [] = [[]]"
| "split_on sep (c # cs) =
     (let r = split_on sep cs in if sep c then [] # r else (c # hd r) # tl r)"

definition lines_of :: "string \<Rightarrow> string list" where
  "lines_of f = split_on (\<lambda>c. c = newline) f"

definition non_blank_lines :: "string \<Rightarrow> string list" where
  "non_blank_lines f = filter (\<lambda>l. l \<noteq> []) (lines_of f)"

definition first_line :: "string \<Rightarrow> string" where
  "first_line f = hd (lines_of f)"

definition tokens :: "string \<Rightarrow> string list" where
  "tokens l = filter (\<lambda>t. t \<noteq> []) (split_on isspace l)"

text \<open>The two files of the examples.\<close>

definition example_file :: string where
  "example_file = ''1 2 3'' @ [newline] @ ''4 5 6'' @ [newline]"

definition ragged_file :: string where
  "ragged_file = ''1 2 3'' @ [newline] @ ''4 5'' @ [newline]"

section \<open>Properties\<close>

lemma concat_rows_upt:
  "concat (map (\<lambda>row. map (\<lambda>col. f (row * w + col)) [0..<w]) [0..<h]) = map f [0..<h * w]"
proof (induction h)
  case 0
  show ?case by simp
next
  case (Suc h)
  have "map f [0..<h * w + w] = map f [0..<h * w] @ map f [h * w..<h * w + w]"
    using upt_add_eq_append [of 0 "h * w" w] by simp
  moreover have "map f [h * w..<h * w + w] = map (\<lambda>col. f (h * w + col)) [0..<w]"
  proof -
    have "map f [h * w..<h * w + w] = map f (map (\<lambda>i. i + h * w) [0..<w])"
      by (simp only: map_add_upt add.commute)
    then show ?thesis by (simp add: comp_def add.commute)
  qed
  ultimately show ?case using Suc by (simp add: add.commute)
qed

lemma cell_index_less: "i < h \<Longrightarrow> j < w \<Longrightarrow> i * w + j < h * (w::nat)"
proof -
  assume "i < h" and "j < w"
  then have "i * w + j < Suc i * w" by simp
  also have "\<dots> \<le> h * w" using \<open>i < h\<close> by (intro mult_le_mono1) simp
  finally show ?thesis .
qed

lemma map_nth_take: "n \<le> length xs \<Longrightarrow> map ((!) xs) [0..<n] = take n xs"
  by (simp add: list_eq_iff_nth_eq)

lemma Matrix_of_buffer_take:
  "height * width \<le> length buf \<Longrightarrow>
   Matrix_of_buffer buf height width =
     Inr \<lparr>size1 = height, size2 = width, data = take (height * width) buf\<rparr>"
  unfolding Matrix_of_buffer_def
  by (simp add: concat_rows_upt [of "(!) buf"] map_nth_take)

lemma length_concat_rows:
  "length (concat (map (\<lambda>i. map (g i) [0..<w]) [0..<h])) = h * w"
  by (induction h) simp_all

lemma fold_update_id:
  "\<forall>j\<in>set js. f j = d ! (k + j) \<Longrightarrow> fold (\<lambda>j d. d[k + j := f j]) js d = d"
  by (induction js) simp_all

lemma Row_eq:
  "i < Height M \<Longrightarrow> Row M i = Inr (map (\<lambda>j. data M ! (i * size2 M + j)) [0..<size2 M])"
  by (simp add: Row_def Height_def Width_def)

text \<open>
  C8. For every valid matrix \<open>M\<close> and every row index \<open>i < Height M\<close>, \<^verbatim>\<open>Row\<close>
  returns a vector \<open>v\<close> and \<^verbatim>\<open>SetRow(i, v)\<close> returns with the matrix equal to \<open>M\<close>:
  both sizes and every cell are as before.
\<close>

theorem SetRow_Row:
  assumes "valid M" and "i < Height M"
  shows "\<exists>v. Row M i = Inr v \<and> SetRow M i v = Inr M"
proof -
  let ?v = "map (\<lambda>j. data M ! (i * size2 M + j)) [0..<size2 M]"
  have "fold (\<lambda>j d. d[i * size2 M + j := ?v ! j]) [0..<size2 M] (data M) = data M"
    by (rule fold_update_id) simp
  then have "SetRow M i ?v = Inr M"
    using assms(2) by (simp add: SetRow_def Height_def)
  with Row_eq [OF assms(2)] show ?thesis by blast
qed

theorem SetRow_Row_witness:
  "\<exists>v. Row \<lparr>size1 = 2, size2 = 2, data = [1, 2, 3, 4]\<rparr> 1 = Inr v
     \<and> SetRow \<lparr>size1 = 2, size2 = 2, data = [1, 2, 3, 4]\<rparr> 1 v
        = Inr \<lparr>size1 = 2, size2 = 2, data = [1, 2, 3, 4]\<rparr>"
  using SetRow_Row [of "\<lparr>size1 = 2, size2 = 2, data = [1, 2, 3, 4]\<rparr>" 1]
  by (simp add: valid_def Height_def)

lemma inner_loop_id:
  "row < size1 t \<Longrightarrow> size2 t = w \<Longrightarrow> \<forall>c\<in>set cs. c < w \<Longrightarrow>
   for_each (\<lambda>col t. Set_cell t row col (data t ! (row * w + col))) cs t = Inr t"
  by (induction cs) (simp_all add: Set_cell_def)

lemma CloneGSLMatrix_eq:
  "CloneGSLMatrix u this = Inr (this, gsl_matrix_alloc (size1 this) (size2 this) u)"
proof -
  have inner: "for_each (\<lambda>col t. Set_cell t row col (data t ! (row * size2 this + col)))
                 [0..<size2 this] this = Inr this" if "row < size1 this" for row
    using inner_loop_id [of row this "size2 this" "[0..<size2 this]"] that by simp
  have outer: "\<forall>r\<in>set rs. r < size1 this \<Longrightarrow>
     for_each (\<lambda>row. for_each (\<lambda>col t. Set_cell t row col (data t ! (row * size2 this + col)))
        [0..<size2 this]) rs this = Inr this" for rs
    by (induction rs) (simp_all add: inner)
  show ?thesis
    using outer [of "[0..<size1 this]"]
    by (simp add: CloneGSLMatrix_def Height_def Width_def)
qed

lemma Invert_eq:
  "Invert lu u u' this =
     (case lu (gsl_matrix_alloc (size1 this) (size2 this) u) of
        None \<Rightarrow> Inl LinalgError
      | Some entry \<Rightarrow>
          Inr (this, \<lparr>size1 = size2 this, size2 = size2 this,
                      data = concat (map (\<lambda>i. map (\<lambda>j. entry i j) [0..<size2 this])
                                         [0..<size2 this])\<rparr>))"
  by (simp add: Invert_def CloneGSLMatrix_eq Width_def gsl_matrix_alloc_def Let_def
      Matrix_of_buffer_take length_concat_rows split: option.split)

lemma Clone_eq:
  "valid M \<Longrightarrow> Clone M = Inr \<lparr>size1 = size2 M, size2 = size1 M, data = data M\<rparr>"
  by (simp add: Clone_def Width_def Height_def Matrix_of_buffer_take valid_def mult.commute)

text \<open>
  C2 does not hold of the code. The clone of the 1 x 2 matrix \<open>[[1, 2]]\<close> is a
  2 x 1 matrix: \<^verbatim>\<open>Clone\<close> hands \<^verbatim>\<open>Width()\<close> to the constructor's height parameter and
  \<^verbatim>\<open>Height()\<close> to its width parameter, so the sizes of a non-square matrix come back
  exchanged over the same row-major block, and cell \<open>(0, 1)\<close> of the original is not a
  cell of the clone.
\<close>

theorem Clone_swaps_sizes:
  "Clone \<lparr>size1 = 1, size2 = 2, data = [1, 2]\<rparr> = Inr \<lparr>size1 = 2, size2 = 1, data = [1, 2]\<rparr>"
  by (simp add: Clone_def Width_def Height_def Matrix_of_buffer_take)





text \<open>
  C3 does not hold of the code. The matrix that \<^verbatim>\<open>Invert\<close> returns does not
  depend on the cells of the receiver: two receivers of the same sizes give the same
  result, whatever the LU routines compute. \<^verbatim>\<open>CloneGSLMatrix\<close> never copies the
  receiver into the working copy, so the routines factorise the uninitialised block.
  Hence \<open>M \<cdot> Invert(M)\<close> cannot be the identity for both \<open>[[1]]\<close> and \<open>[[2]]\<close>; with the
  exact inverse as backend and 4 in the fresh block, both give \<open>[[1/4]]\<close>.
\<close>

theorem Invert_ignores_receiver:
  assumes "size1 M = size1 M'" and "size2 M = size2 M'"
  shows "map_sum id snd (Invert lu u u' M) = map_sum id snd (Invert lu u u' M')"
  using assms by (simp add: Invert_eq split: option.split)

theorem Invert_ignores_receiver_witness:
  "map_sum id snd (Invert (\<lambda>c. Some (\<lambda>i j. 1 / data c ! 0)) (\<lambda>p. 4) (\<lambda>p. 0)
       \<lparr>size1 = 1, size2 = 1, data = [2]\<rparr>) = Inr \<lparr>size1 = 1, size2 = 1, data = [1 / 4]\<rparr>
   \<and> map_sum id snd (Invert (\<lambda>c. Some (\<lambda>i j. 1 / data c ! 0)) (\<lambda>p. 4) (\<lambda>p. 0)
       \<lparr>size1 = 1, size2 = 1, data = [1]\<rparr>) = Inr \<lparr>size1 = 1, size2 = 1, data = [1 / 4]\<rparr>"
proof -
  have "map_sum id snd (Invert (\<lambda>c. Some (\<lambda>i j. 1 / data c ! 0)) (\<lambda>p. 4) (\<lambda>p. 0)
       \<lparr>size1 = 1, size2 = 1, data = [2]\<rparr>) = Inr \<lparr>size1 = 1, size2 = 1, data = [1 / 4]\<rparr>"
    by (simp add: Invert_eq gsl_matrix_alloc_def)
  with Invert_ignores_receiver [of "\<lparr>size1 = 1, size2 = 1, data = [1]\<rparr>"
      "\<lparr>size1 = 1, size2 = 1, data = [2]\<rparr>"
      "\<lambda>c. Some (\<lambda>i j. 1 / data c ! 0)" "\<lambda>p. 4" "\<lambda>p. 0"]
  show ?thesis by simp
qed

text \<open>
  C4 does not hold of the code. For the 2 x 1 matrix \<open>[[1], [2]]\<close> and the
  vector \<open>[3]\<close> of length 1 (the width), the result buffer is allocated with
  \<^verbatim>\<open>vec->Size()\<close> = 1 cell, while \<^verbatim>\<open>cblas_dgemm\<close> is asked for a product of
  \<open>Height \<times> vec->Size()\<close> = 2 x 1 cells with \<open>ldc = 1\<close>: the second cell lies outside
  the buffer, and no vector of length 2 (the height) is returned.
\<close>

theorem Multiply_Vector_overruns:
  "Multiply_Vector \<lparr>size1 = 2, size2 = 1, data = [1, 2]\<rparr> [3] = Inl OutOfBounds"
  by (simp add: Multiply_Vector_def cblas_dgemm_RowMajor_NoTrans_Trans_def block_fits_def
      gsl_vector_calloc_def Height_def Width_def)

lemma Multiply_Vector_length:
  "Multiply_Vector this vec = Inr r \<Longrightarrow> length r = length vec"
  by (auto simp: Multiply_Vector_def Vector_of_buffer_def gsl_vector_calloc_def Let_def
      split: sum.splits if_splits)

lemma dot_map:
  "dot (map f ks) (map g ks) = (\<Sum>k\<leftarrow>ks. f k * g k)"
  by (induction ks) (simp_all add: dot_def)

lemma dot_take:
  "n \<le> m \<Longrightarrow> dot (map f [0..<n]) (take n (map g [0..<m])) = (\<Sum>k\<leftarrow>[0..<n]. f k * g k)"
  by (simp add: take_map dot_map)

lemma Multiply_prefix:
  assumes "valid A" and "valid B" and "Width A \<le> Width B"
  shows "Multiply u A B =
           Inr \<lparr>size1 = Height A, size2 = Height B,
                data = map (\<lambda>p. \<Sum>k\<leftarrow>[0..<Width A].
                              data A ! (p div Height B * Width A + k)
                                * data B ! (p mod Height B * Width B + k))
                         [0..<Height A * Height B]\<rparr>"
proof -
  have fitsA: "block_fits (size1 A) (size2 A) (size2 A) (length (data A))"
    using assms(1) by (cases "size1 A") (simp_all add: valid_def block_fits_def)
  have "(size1 B - 1) * size2 B + size2 A \<le> (size1 B - 1) * size2 B + size2 B"
    using assms(3) by (simp add: Width_def)
  also have "\<dots> = size1 B * size2 B"
    using assms(2) by (cases "size1 B") (simp_all add: valid_def)
  finally have fitsB: "block_fits (size1 B) (size2 A) (size2 B) (length (data B))"
    using assms(2) by (simp add: valid_def block_fits_def)
  have fitsC: "block_fits (size1 A) (size1 B) (size1 B) (size1 A * size1 B)"
    by (cases "size1 A") (simp_all add: block_fits_def)
  have pos: "0 < size2 A" "0 < size1 B" "size2 A \<le> size2 B"
    using assms by (simp_all add: valid_def Width_def)
  have inrange: "p div size1 B < size1 A \<and> p mod size1 B < size1 B"
    if "p < size1 A * size1 B" for p
    using that pos(2) by (simp add: less_mult_imp_div_less mult.commute)
  have dg: "cblas_dgemm_RowMajor_NoTrans_Trans (size1 A) (size1 B) (size2 A) 1 (data A) (size2 A)
          (data B) (size2 B) 0 (map u [0..<size1 A * size1 B]) (size1 B)
        = Inr (map (\<lambda>p. \<Sum>k\<leftarrow>[0..<size2 A].
                              data A ! (p div size1 B * size2 A + k)
                                * data B ! (p mod size1 B * size2 B + k))
                         [0..<size1 A * size1 B])"
    using fitsA fitsB fitsC pos inrange
    by (simp add: cblas_dgemm_RowMajor_NoTrans_Trans_def Let_def)
  show ?thesis
    by (simp add: Multiply_def gsl_matrix_alloc_def Height_def Width_def dg Matrix_of_buffer_take)
qed

lemma Multiply_cell:
  assumes "valid A" and "valid B" and "Width A \<le> Width B"
    and "Multiply u A B = Inr R" and "i < Height A" and "j < Height B"
  shows "\<exists>a b. Row A i = Inr a \<and> Row B j = Inr b
           \<and> Get R i j = Inr (dot a (take (Width A) b))"
proof -
  let ?a = "map (\<lambda>k. data A ! (i * size2 A + k)) [0..<size2 A]"
  let ?b = "map (\<lambda>k. data B ! (j * size2 B + k)) [0..<size2 B]"
  have R: "R = \<lparr>size1 = Height A, size2 = Height B,
                data = map (\<lambda>p. \<Sum>k\<leftarrow>[0..<Width A].
                              data A ! (p div Height B * Width A + k)
                                * data B ! (p mod Height B * Width B + k))
                         [0..<Height A * Height B]\<rparr>"
    using Multiply_prefix [OF assms(1-3), of u] assms(4) by simp
  have lt: "i * Height B + j < Height A * Height B"
    using assms(5,6) by (rule cell_index_less)
  have "Get R i j = Inr (\<Sum>k\<leftarrow>[0..<Width A].
           data A ! (i * Width A + k) * data B ! (j * Width B + k))"
    using assms(5,6) lt by (simp add: R Get_def)
  moreover have "dot ?a (take (size2 A) ?b)
      = (\<Sum>k\<leftarrow>[0..<size2 A]. data A ! (i * size2 A + k) * data B ! (j * size2 B + k))"
    using assms(3) by (simp add: dot_take Width_def)
  ultimately have "Get R i j = Inr (dot ?a (take (Width A) ?b))"
    by (simp add: Width_def)
  with Row_eq [OF assms(5)] Row_eq [OF assms(6)] show ?thesis by blast
qed

text \<open>
  C1. For valid matrices \<open>A\<close> (\<open>m \<times> k\<close>) and \<open>B\<close> (\<open>n \<times> k\<close>) of equal width,
  \<^verbatim>\<open>Multiply\<close> returns a matrix of height \<open>m\<close> and width \<open>n\<close> whose cell \<open>(i, j)\<close> is the
  dot product of row \<open>i\<close> of \<open>A\<close> and row \<open>j\<close> of \<open>B\<close>, for all \<open>i < m\<close> and \<open>j < n\<close>.
\<close>

theorem Multiply_entries:
  assumes "valid A" and "valid B" and "Width A = Width B"
  shows "\<exists>R. Multiply u A B = Inr R \<and> Height R = Height A \<and> Width R = Height B
           \<and> (\<forall>i<Height A. \<forall>j<Height B.
                 \<exists>a b. Row A i = Inr a \<and> Row B j = Inr b \<and> Get R i j = Inr (dot a b))"
proof -
  have le: "Width A \<le> Width B" using assms(3) by simp
  obtain R where R: "Multiply u A B = Inr R" and hw: "Height R = Height A" "Width R = Height B"
    using Multiply_prefix [OF assms(1,2) le, of u] by (simp add: Height_def Width_def)
  have "\<exists>a b. Row A i = Inr a \<and> Row B j = Inr b \<and> Get R i j = Inr (dot a b)"
    if i: "i < Height A" and j: "j < Height B" for i j
  proof -
    obtain a b where ab: "Row A i = Inr a" "Row B j = Inr b"
        "Get R i j = Inr (dot a (take (Width A) b))"
      using Multiply_cell [OF assms(1,2) le R i j] by blast
    have "length b = Width B" using ab(2) j by (auto simp: Row_eq Width_def)
    then have "take (Width A) b = b" using assms(3) by simp
    with ab show ?thesis by auto
  qed
  with R hw show ?thesis by blast
qed

theorem Multiply_entries_witness:
  "\<exists>R. Multiply (\<lambda>p. 0) \<lparr>size1 = 1, size2 = 2, data = [1, 2]\<rparr>
            \<lparr>size1 = 2, size2 = 2, data = [3, 4, 5, 6]\<rparr> = Inr R
       \<and> Height R = 1 \<and> Width R = 2
       \<and> Get R 0 0 = Inr (dot [1, 2] [3, 4]) \<and> Get R 0 1 = Inr (dot [1, 2] [5, 6])"
  using Multiply_entries [of "\<lparr>size1 = 1, size2 = 2, data = [1, 2]\<rparr>"
      "\<lparr>size1 = 2, size2 = 2, data = [3, 4, 5, 6]\<rparr>" "\<lambda>p. 0"]
  by (auto simp: valid_def Height_def Width_def Row_def less_Suc_eq numeral_2_eq_2)

text \<open>
  C7, as stated, fails: \<^verbatim>\<open>Multiply\<close> compares no sizes. For \<open>A = [[2]]\<close> of width 1
  and \<open>B = [[3, 5]]\<close> of width 2 it returns the 1 x 1 matrix \<open>[[6]]\<close>.
\<close>

theorem Multiply_unchecked_counterexample:
  "Width \<lparr>size1 = 1, size2 = 1, data = [2]\<rparr> \<noteq> Width \<lparr>size1 = 1, size2 = 2, data = [3, 5]\<rparr>
   \<and> Multiply (\<lambda>p. 0) \<lparr>size1 = 1, size2 = 1, data = [2]\<rparr> \<lparr>size1 = 1, size2 = 2, data = [3, 5]\<rparr>
       = Inr \<lparr>size1 = 1, size2 = 1, data = [6]\<rparr>"
  by (simp add: Multiply_def cblas_dgemm_RowMajor_NoTrans_Trans_def block_fits_def
      gsl_matrix_alloc_def Height_def Width_def Matrix_of_buffer_take)

text \<open>
  C7, amended. For valid \<open>A\<close> and \<open>B\<close>: when \<open>A\<close> is narrower than \<open>B\<close>, \<^verbatim>\<open>Multiply\<close>
  returns the matrix of height \<open>Height A\<close> and width \<open>Height B\<close> whose cell \<open>(i, j)\<close> is the
  dot product of row \<open>i\<close> of \<open>A\<close> with the first \<open>Width A\<close> cells of row \<open>j\<close> of \<open>B\<close>; when
  \<open>A\<close> is wider than \<open>B\<close>, the call is stopped by the argument check of
  \<^verbatim>\<open>cblas_dgemm\<close> (\<open>ldb < K\<close>), the only check on the way.
\<close>

theorem Multiply_width_mismatch:
  assumes "valid A" and "valid B"
  shows "(Width A < Width B \<longrightarrow>
            (\<exists>R. Multiply u A B = Inr R \<and> Height R = Height A \<and> Width R = Height B
               \<and> (\<forall>i<Height A. \<forall>j<Height B.
                     \<exists>a b. Row A i = Inr a \<and> Row B j = Inr b
                       \<and> Get R i j = Inr (dot a (take (Width A) b)))))
       \<and> (Width B < Width A \<longrightarrow> Multiply u A B = Inl IllegalParameter)"
proof (intro conjI impI)
  assume "Width A < Width B"
  then have le: "Width A \<le> Width B" by simp
  obtain R where R: "Multiply u A B = Inr R" and hw: "Height R = Height A" "Width R = Height B"
    using Multiply_prefix [OF assms le, of u] by (simp add: Height_def Width_def)
  from Multiply_cell [OF assms le R] R hw
  show "\<exists>R. Multiply u A B = Inr R \<and> Height R = Height A \<and> Width R = Height B
               \<and> (\<forall>i<Height A. \<forall>j<Height B.
                     \<exists>a b. Row A i = Inr a \<and> Row B j = Inr b
                       \<and> Get R i j = Inr (dot a (take (Width A) b)))"
    by blast
next
  assume "Width B < Width A"
  then show "Multiply u A B = Inl IllegalParameter"
    by (simp add: Multiply_def cblas_dgemm_RowMajor_NoTrans_Trans_def Width_def Let_def)
qed

theorem Multiply_width_mismatch_witness:
  "(\<exists>R. Multiply (\<lambda>p. 0) \<lparr>size1 = 1, size2 = 1, data = [2]\<rparr>
            \<lparr>size1 = 1, size2 = 2, data = [3, 5]\<rparr> = Inr R
        \<and> Height R = 1 \<and> Width R = 1 \<and> Get R 0 0 = Inr (dot [2] (take 1 [3, 5])))
   \<and> Multiply (\<lambda>p. 0) \<lparr>size1 = 1, size2 = 2, data = [3, 5]\<rparr>
        \<lparr>size1 = 1, size2 = 1, data = [2]\<rparr> = Inl IllegalParameter"
  using Multiply_width_mismatch [of "\<lparr>size1 = 1, size2 = 1, data = [2]\<rparr>"
      "\<lparr>size1 = 1, size2 = 2, data = [3, 5]\<rparr>" "\<lambda>p. 0"]
    Multiply_width_mismatch [of "\<lparr>size1 = 1, size2 = 2, data = [3, 5]\<rparr>"
      "\<lparr>size1 = 1, size2 = 1, data = [2]\<rparr>" "\<lambda>p. 0"]
  by (auto simp: valid_def Height_def Width_def Row_def numeral_2_eq_2)






















lemma NumberOfRows_loop_Nil: "NumberOfRows_loop [] lastChar count = count"
  by (subst NumberOfRows_loop.simps) simp

lemma NumberOfRows_loop_Cons:
  "c \<noteq> EOF_char \<Longrightarrow>
   NumberOfRows_loop (c # f) lastChar count =
     NumberOfRows_loop f c (if lastChar = newline \<and> c \<noteq> newline then count + 1 else count)"
  by (subst NumberOfRows_loop.simps) simp

lemma NumberOfRows_loop_lines:
  "EOF_char \<notin> set f \<Longrightarrow>
   NumberOfRows_loop f lastChar count =
     count + length (filter (\<lambda>l. l \<noteq> [])
                (if lastChar = newline then lines_of f else tl (lines_of f)))"
proof (induction f arbitrary: lastChar count)
  case Nil
  show ?case by (simp add: NumberOfRows_loop_Nil lines_of_def)
next
  case (Cons c f)
  then have c: "c \<noteq> EOF_char" and f: "EOF_char \<notin> set f" by auto
  show ?case
    unfolding NumberOfRows_loop_Cons [OF c] Cons.IH [OF f]
    by (simp add: lines_of_def Let_def)
qed

lemma NumberOfRows_lines:
  "EOF_char \<notin> set f \<Longrightarrow> NumberOfRows f = length (non_blank_lines f)"
  by (simp add: NumberOfRows_def NumberOfRows_loop_lines non_blank_lines_def)

lemma NumberOfColumns_loop_newline:
  "NumberOfColumns_loop (newline # f) lastChar count = Some count"
  by (subst NumberOfColumns_loop.simps) simp

lemma NumberOfColumns_loop_Cons:
  "c \<noteq> newline \<Longrightarrow>
   NumberOfColumns_loop (c # f) lastChar count =
     NumberOfColumns_loop f c (if isspace lastChar \<and> \<not> isspace c then count + 1 else count)"
  by (subst NumberOfColumns_loop.simps) simp

lemma NumberOfColumns_loop_tokens:
  "newline \<in> set f \<Longrightarrow>
   NumberOfColumns_loop f lastChar count =
     Some (count + length (filter (\<lambda>t. t \<noteq> [])
                     (if isspace lastChar then split_on isspace (takeWhile (\<lambda>c. c \<noteq> newline) f)
                      else tl (split_on isspace (takeWhile (\<lambda>c. c \<noteq> newline) f)))))"
proof (induction f arbitrary: lastChar count)
  case Nil
  then show ?case by simp
next
  case (Cons c f)
  show ?case
  proof (cases "c = newline")
    case True
    then show ?thesis by (simp add: NumberOfColumns_loop_newline)
  next
    case False
    with Cons.prems have f: "newline \<in> set f" by simp
    show ?thesis
      unfolding NumberOfColumns_loop_Cons [OF False] Cons.IH [OF f]
      using False by (simp add: Let_def)
  qed
qed

lemma first_line_takeWhile: "first_line f = takeWhile (\<lambda>c. c \<noteq> newline) f"
  by (induction f) (simp_all add: first_line_def lines_of_def Let_def)

lemma NumberOfColumns_tokens:
  "newline \<in> set f \<Longrightarrow> NumberOfColumns f = Some (length (tokens (first_line f)))"
  by (simp add: NumberOfColumns_def NumberOfColumns_loop_tokens tokens_def
      first_line_takeWhile isspace_def)

lemma NumberOfColumns_loop_returns:
  assumes "NumberOfColumns_loop f lastChar count = Some n"
  shows "newline \<in> set f"
proof (rule NumberOfColumns_loop.raw_induct
    [where P = "\<lambda>f lastChar count n. newline \<in> set f", OF _ assms])
  fix loop :: "string \<Rightarrow> char \<Rightarrow> nat \<Rightarrow> nat option" and f lastChar count n
  assume IH: "\<And>f lastChar count n. loop f lastChar count = Some n \<Longrightarrow> newline \<in> set f"
    and body: "(case fgetc f of (currentChar, f') \<Rightarrow>
        if currentChar \<noteq> newline
        then loop f' currentChar
               (if isspace lastChar \<and> \<not> isspace currentChar then count + 1 else count)
        else Some count) = Some n"
  show "newline \<in> set f"
  proof (cases f)
    case Nil
    with body have "loop [] EOF_char
        (if isspace lastChar \<and> \<not> isspace EOF_char then count + 1 else count) = Some n"
      by (simp add: EOF_char_def newline_def)
    from IH [OF this] show ?thesis by simp
  next
    case (Cons c f')
    show ?thesis
    proof (cases "c = newline")
      case True
      with Cons show ?thesis by simp
    next
      case False
      with body Cons have "loop f' c
          (if isspace lastChar \<and> \<not> isspace c then count + 1 else count) = Some n"
        by simp
      from IH [OF this] Cons show ?thesis by simp
    qed
  qed
qed

lemma length_gsl_block_raw_fscanf:
  "gsl_block_raw_fscanf scan f n = Some xs \<Longrightarrow> length xs = n"
  by (induction n arbitrary: f xs) (auto split: option.splits)

text \<open>
  C10. For every file without a newline character (the first line is not terminated;
  the empty file is one of them), \<^verbatim>\<open>NumberOfColumns\<close> does not return, and neither does
  the constructor from a file path once the file is open: the loop leaves only on
  reading a newline, and at the end of the file \<^verbatim>\<open>fgetc\<close> keeps answering \<^verbatim>\<open>EOF\<close>.
\<close>

theorem NumberOfColumns_diverges:
  assumes "fs filename = Some f" and "newline \<notin> set f"
  shows "NumberOfColumns f = None \<and> Matrix_of_file scan fs filename = None"
proof -
  have "NumberOfColumns f = None"
  proof (cases "NumberOfColumns f")
    case (Some n)
    then have "newline \<in> set f"
      unfolding NumberOfColumns_def by (rule NumberOfColumns_loop_returns)
    with assms(2) show ?thesis by simp
  qed simp
  then show ?thesis using assms(1) by (simp add: Matrix_of_file_def)
qed

theorem NumberOfColumns_diverges_witness:
  "NumberOfColumns ''1 2 3'' = None
   \<and> Matrix_of_file scan_decimal (\<lambda>name. Some ''1 2 3'') ''matrix.txt'' = None
   \<and> NumberOfColumns [] = None
   \<and> Matrix_of_file scan_decimal (\<lambda>name. Some []) ''matrix.txt'' = None"
  using NumberOfColumns_diverges [of "\<lambda>name. Some ''1 2 3''" "''matrix.txt''" "''1 2 3''" scan_decimal]
    NumberOfColumns_diverges [of "\<lambda>name. Some []" "''matrix.txt''" "[]" scan_decimal]
  by (simp add: newline_def)

lemma example_rows: "NumberOfRows example_file = 2"
  by (simp add: NumberOfRows_def example_file_def newline_def EOF_char_def
      NumberOfRows_loop_Nil NumberOfRows_loop_Cons)

lemma ragged_rows: "NumberOfRows ragged_file = 2"
  by (simp add: NumberOfRows_def ragged_file_def newline_def EOF_char_def
      NumberOfRows_loop_Nil NumberOfRows_loop_Cons)

lemma example_cols: "NumberOfColumns example_file = Some 3"
  by (simp add: NumberOfColumns_def example_file_def newline_def isspace_def
      NumberOfColumns_loop_newline [unfolded newline_def] NumberOfColumns_loop_Cons)

lemma ragged_cols: "NumberOfColumns ragged_file = Some 3"
  by (simp add: NumberOfColumns_def ragged_file_def newline_def isspace_def
      NumberOfColumns_loop_newline [unfolded newline_def] NumberOfColumns_loop_Cons)

lemma example_scan:
  "gsl_block_raw_fscanf scan_decimal example_file 6 = Some [1, 2, 3, 4, 5, 6]"
  by (simp add: eval_nat_numeral example_file_def newline_def scan_decimal_def isspace_def
      isdigit_def digit_value_def Let_def)

lemma ragged_scan:
  "gsl_block_raw_fscanf scan_decimal ragged_file 6 = None"
  by (simp add: eval_nat_numeral ragged_file_def newline_def scan_decimal_def isspace_def
      isdigit_def digit_value_def Let_def)

text \<open>
  C6, as stated, fails: the rows of the file are not checked against the width found
  on the first line. For the file \<open>1 2 3\<close>, newline, \<open>4 5\<close>, newline, two rows and three
  columns are detected, six numbers are asked of a file that holds five, and the scan
  fails: no matrix is filled.
\<close>

theorem Matrix_of_file_ragged_counterexample:
  "length (non_blank_lines ragged_file) = 2 \<and> length (tokens (first_line ragged_file)) = 3
   \<and> Matrix_of_file scan_decimal (\<lambda>name. Some ragged_file) ''matrix.txt'' = Some (Inl ScanFailed)"
proof -
  have "length (non_blank_lines ragged_file) = 2"
    by (simp add: non_blank_lines_def lines_of_def ragged_file_def newline_def)
  moreover have "length (tokens (first_line ragged_file)) = 3"
    by (simp add: tokens_def first_line_def lines_of_def ragged_file_def newline_def isspace_def)
  moreover have "Matrix_of_file scan_decimal (\<lambda>name. Some ragged_file) ''matrix.txt''
      = Some (Inl ScanFailed)"
    by (simp add: Matrix_of_file_def ragged_rows ragged_cols ragged_scan)
  ultimately show ?thesis by simp
qed

text \<open>
  C6, amended. For every file whose first line ends with a newline, that holds no
  byte \<open>0xFF\<close>, and from which \<open>rows * cols\<close> numbers can be scanned, the constructor
  returns the matrix whose height is the number of non-empty lines, whose width is the
  number of whitespace-delimited tokens of the first line, and whose block holds the
  scanned numbers in row-major order: cell \<open>(r, c)\<close> is number \<open>r * cols + c\<close> of the file.
  (A file whose first line is not terminated is the subject of C10.)
\<close>

theorem Matrix_of_file_shape:
  assumes "fs filename = Some f" and "newline \<in> set f" and "EOF_char \<notin> set f"
    and "gsl_block_raw_fscanf scan f
           (length (non_blank_lines f) * length (tokens (first_line f))) = Some xs"
  shows "\<exists>M. Matrix_of_file scan fs filename = Some (Inr M)
           \<and> Height M = length (non_blank_lines f)
           \<and> Width M = length (tokens (first_line f))
           \<and> data M = xs
           \<and> (\<forall>r<Height M. \<forall>c<Width M. Get M r c = Inr (xs ! (r * Width M + c)))"
  using assms
  by (simp add: Matrix_of_file_def NumberOfRows_lines NumberOfColumns_tokens
      Height_def Width_def Get_def)

theorem Matrix_of_file_shape_witness:
  "\<exists>M. Matrix_of_file scan_decimal (\<lambda>name. Some example_file) ''matrix.txt'' = Some (Inr M)
     \<and> Height M = 2 \<and> Width M = 3
     \<and> Get M 0 0 = Inr 1 \<and> Get M 0 1 = Inr 2 \<and> Get M 0 2 = Inr 3
     \<and> Get M 1 0 = Inr 4 \<and> Get M 1 1 = Inr 5 \<and> Get M 1 2 = Inr 6"
proof -
  have rows: "length (non_blank_lines example_file) = 2"
    by (simp add: non_blank_lines_def lines_of_def example_file_def newline_def)
  have cols: "length (tokens (first_line example_file)) = 3"
    by (simp add: tokens_def first_line_def lines_of_def example_file_def newline_def isspace_def)
  have nl: "newline \<in> set example_file"
    by (simp add: example_file_def)
  have eof: "EOF_char \<notin> set example_file"
    by (simp add: example_file_def EOF_char_def newline_def)
  have scan: "gsl_block_raw_fscanf scan_decimal example_file
      (length (non_blank_lines example_file) * length (tokens (first_line example_file)))
      = Some [1, 2, 3, 4, 5, 6]"
    by (simp add: rows cols example_scan)
  from Matrix_of_file_shape [of "\<lambda>name. Some example_file" "''matrix.txt''" example_file
      scan_decimal "[1, 2, 3, 4, 5, 6]", OF refl nl eof scan]
  obtain M where M: "Matrix_of_file scan_decimal (\<lambda>name. Some example_file) ''matrix.txt''
      = Some (Inr M)" "Height M = 2" "Width M = 3" "data M = [1, 2, 3, 4, 5, 6]"
    by (auto simp: rows cols)
  then have "Get M 0 0 = Inr 1 \<and> Get M 0 1 = Inr 2 \<and> Get M 0 2 = Inr 3
     \<and> Get M 1 0 = Inr 4 \<and> Get M 1 1 = Inr 5 \<and> Get M 1 2 = Inr 6"
    by (simp add: Get_def Height_def Width_def)
  with M show ?thesis by blast
qed

end
